theory Spec2Isabelle
  imports Main "HOL-Library.AList"
begin

section \<open>Python exceptions and outcomes\<close>

text \<open>
  The exceptions that occur in the modelled sources. \<open>KeyboardInterrupt\<close> and
  \<open>SystemExit\<close> derive from \<open>BaseException\<close> only, so a clause
  \<^verbatim>\<open>except Exception\<close> does not catch them; all the others are subclasses of
  \<open>Exception\<close>. \<open>OtherException\<close> stands for any further subclass of \<open>Exception\<close>
  that a unit of work may raise, with its message. \<open>OverflowError\<close> is what
  \<open>sqlite3\<close> raises when it binds a Python \<open>int\<close> that is not a 64-bit signed
  integer; \<open>UnicodeDecodeError\<close> and \<open>RecursionError\<close> are what reading a file
  that is not UTF-8, or parsing too deeply nested JSON, raises.
\<close>

datatype py_exc =
    HTTPException nat string
  | TypeError
  | IntegrityError string
  | OperationalError string
  | JSONDecodeError
  | FileNotFoundError
  | UnicodeDecodeError
  | RecursionError
  | OverflowError
  | OtherException string
  | KeyboardInterrupt
  | SystemExit

fun is_Exception :: "py_exc \<Rightarrow> bool" where
  "is_Exception KeyboardInterrupt = False"
| "is_Exception SystemExit = False"
| "is_Exception _ = True"

datatype 'r outcome = Returns 'r | Raises py_exc

section \<open>The storage backend behind \<open>sqlite3\<close>\<close>

text \<open>
  A world holds, for every resource identifier, the committed content of the database
  behind it (the type \<open>'d\<close>), the number of connections opened and closed so far, and
  the trace of the calls made on the backend and on the console. A connection is
  identified by the number of connections opened before it; \<open>pending\<close> is \<open>None\<close>
  outside a transaction and \<open>Some d\<close> inside one, \<open>d\<close> being the content as seen
  through the connection with its uncommitted writes.

  The calls \<open>connect\<close>, \<open>cursor\<close>, \<open>commit\<close>, \<open>rollback\<close> and \<open>close\<close> of the
  backend are taken to succeed; closing a connection drops what is pending on it.
\<close>

type_synonym url = string

text \<open>
  An \<open>INTEGER\<close> of SQLite is a 64-bit signed integer. Binding a Python \<open>int\<close>
  outside this range as a parameter of \<open>cursor.execute\<close> raises \<open>OverflowError\<close>.
\<close>

definition fits_int64 :: "int \<Rightarrow> bool" where
  "fits_int64 i = (- (2 ^ 63) \<le> i \<and> i < 2 ^ 63)"

datatype event =
    Connect url nat
  | CursorOpened nat
  | Commit nat
  | Rollback nat
  | Printed py_exc
  | CursorClosed nat
  | Closed nat

record 'd cnx =
  cnx_id :: nat
  cnx_url :: url
  pending :: "'d option"

record 'd world =
  store :: "url \<Rightarrow> 'd"
  opened :: nat
  closed :: nat
  log :: "event list"

definition connect :: "url \<Rightarrow> 'd world \<Rightarrow> 'd cnx \<times> 'd world" where
  "connect u w =
     (\<lparr>cnx_id = opened w, cnx_url = u, pending = None\<rparr>,
      w\<lparr>opened := Suc (opened w), log := log w @ [Connect u (opened w)]\<rparr>)"

definition cursor :: "'d cnx \<Rightarrow> 'd world \<Rightarrow> 'd world" where
  "cursor c w = w\<lparr>log := log w @ [CursorOpened (cnx_id c)]\<rparr>"

definition in_transaction :: "'d cnx \<Rightarrow> bool" where
  "in_transaction c = (pending c \<noteq> None)"

definition commit :: "'d cnx \<Rightarrow> 'd world \<Rightarrow> 'd cnx \<times> 'd world" where
  "commit c w =
     (c\<lparr>pending := None\<rparr>,
      w\<lparr>store := (case pending c of None \<Rightarrow> store w
                                 | Some d \<Rightarrow> (store w)(cnx_url c := d)),
        log := log w @ [Commit (cnx_id c)]\<rparr>)"

definition rollback :: "'d cnx \<Rightarrow> 'd world \<Rightarrow> 'd cnx \<times> 'd world" where
  "rollback c w = (c\<lparr>pending := None\<rparr>, w\<lparr>log := log w @ [Rollback (cnx_id c)]\<rparr>)"

definition print_err :: "py_exc \<Rightarrow> 'd world \<Rightarrow> 'd world" where
  "print_err err w = w\<lparr>log := log w @ [Printed err]\<rparr>"

definition cursor_close :: "'d cnx \<Rightarrow> 'd world \<Rightarrow> 'd world" where
  "cursor_close c w = w\<lparr>log := log w @ [CursorClosed (cnx_id c)]\<rparr>"

definition cnx_close :: "'d cnx \<Rightarrow> 'd world \<Rightarrow> 'd world" where
  "cnx_close c w = w\<lparr>closed := Suc (closed w), log := log w @ [Closed (cnx_id c)]\<rparr>"

section \<open>The session wrapper (\<open>session.py\<close>)\<close>

text \<open>
  A unit of work receives the handle and the world, and gives back its outcome, the
  transaction state it leaves on the handle, and the world as it leaves it (a unit of
  work may itself call wrapped functions, which act on the world).

  \<^verbatim>\<open>
  def inner(url, *args, **kwargs):
      cnx = sqlite3.connect(url)
      cnx.row_factory = sqlite3.Row
      cursor = cnx.cursor()
      try:
          result = func(cursor, *args, **kwargs)
          if cnx.in_transaction:
              cnx.commit()
          return result
      except Exception as err:
          cnx.rollback()
          print(f'err: {err}')
          raise
      finally:
          cursor.close()
          cnx.close()
  \<close>
\<close>

type_synonym ('d, 'r) unit_of_work =
  "'d cnx \<Rightarrow> 'd world \<Rightarrow> 'r outcome \<times> 'd option \<times> 'd world"

definition acquire :: "url \<Rightarrow> 'd world \<Rightarrow> 'd cnx \<times> 'd world" where
  "acquire u w = (let (c, w1) = connect u w in (c, cursor c w1))"

definition finally_close :: "'d cnx \<Rightarrow> 'd world \<Rightarrow> 'd world" where
  "finally_close c w = cnx_close c (cursor_close c w)"

definition session :: "('d, 'r) unit_of_work \<Rightarrow> url \<Rightarrow> 'd world \<Rightarrow> 'r outcome \<times> 'd world" where
  "session func u w =
     (let (c, w1) = acquire u w;
          (out, p, w2) = func c w1;
          c2 = c\<lparr>pending := p\<rparr>
      in case out of
           Returns result \<Rightarrow>
             (let (c3, w3) = (if in_transaction c2 then commit c2 w2 else (c2, w2))
              in (Returns result, finally_close c3 w3))
         | Raises err \<Rightarrow>
             (if is_Exception err
              then (let (c3, w3) = rollback c2 w2;
                        w4 = print_err err w3
                    in (Raises err, finally_close c3 w4))
              else (Raises err, finally_close c2 w2)))"

text \<open>
  What a statement executed on the cursor sees: the pending content inside a
  transaction, the committed content outside one.
\<close>

definition cursor_view :: "'d cnx \<Rightarrow> 'd world \<Rightarrow> 'd" where
  "cursor_view c w = (case pending c of None \<Rightarrow> store w (cnx_url c) | Some d \<Rightarrow> d)"

text \<open>
  A unit of work that acts through its cursor only: \<open>body\<close> maps the content it sees
  to its outcome and to \<open>Some d'\<close> when it executed a data-modifying statement
  (\<open>sqlite3\<close> then opens a transaction, \<open>d'\<close> being the uncommitted content), and to
  \<open>None\<close> when it only read.
\<close>

definition on_cursor :: "('d \<Rightarrow> 'r outcome \<times> 'd option) \<Rightarrow> ('d, 'r) unit_of_work" where
  "on_cursor body c w =
     (case body (cursor_view c w) of
        (out, None) \<Rightarrow> (out, pending c, w)
      | (out, Some d') \<Rightarrow> (out, Some d', w))"

text \<open>The events a call added to the trace, and the commits and rollbacks among them.\<close>

definition issued :: "'d world \<Rightarrow> 'd world \<Rightarrow> event list" where
  "issued w w' = drop (length (log w)) (log w')"


fun is_rollback :: "event \<Rightarrow> bool" where
  "is_rollback (Rollback _) = True"
| "is_rollback _ = False"


fun is_connect :: "event \<Rightarrow> bool" where
  "is_connect (Connect _ _) = True"
| "is_connect _ = False"

fun is_closed :: "event \<Rightarrow> bool" where
  "is_closed (Closed _) = True"
| "is_closed _ = False"

text \<open>Calling a wrapped function \<open>n\<close> times in a row.\<close>

fun invoke_n :: "nat \<Rightarrow> ('d, 'r) unit_of_work \<Rightarrow> url \<Rightarrow> 'd world \<Rightarrow> 'd world" where
  "invoke_n 0 func u w = w"
| "invoke_n (Suc n) func u w = invoke_n n func u (snd (session func u w))"



section \<open>The car owner functions (\<open>main_car_owners.py\<close>)\<close>

text \<open>
  The table \<open>car_owners\<close> as \<open>init_db\<close> creates it: \<open>id\<close> is the primary key,
  \<open>name\<close>, \<open>age\<close> and \<open>email\<close> are \<open>NOT NULL\<close>, \<open>email\<close> is \<open>UNIQUE\<close>. The
  database behind a resource identifier is the list of the table's rows. The foreign
  key of \<open>cars\<close> is not enforced (\<open>sqlite3\<close> leaves \<open>PRAGMA foreign_keys\<close> off).
\<close>

record car_owner_row =
  owner_id :: int
  owner_name :: string
  owner_age :: int
  owner_email :: string
  owner_created_at :: "string option"



text \<open>
  \<^verbatim>\<open>
  @session
  def get_car_owner_by_id(cursor, owner_id: int, url=DB_FILE) -> dict | None:
      cursor.execute("SELECT * FROM car_owners WHERE id = ?", (owner_id,))
      car_owners = cursor.fetchone()
      return car_owners
  \<close>
\<close>

definition get_car_owner_by_id :: "int \<Rightarrow> (car_owner_row list, car_owner_row option) unit_of_work" where
  "get_car_owner_by_id oid =
     on_cursor (\<lambda>rows.
       if fits_int64 oid then (Returns (find (\<lambda>r. owner_id r = oid) rows), None)
       else (Raises OverflowError, None))"











section \<open>JSON values and the todo models\<close>

text \<open>
  A Python \<open>float\<close> is a double: infinite, not a number, or finite. The finite double
  \<open>Finite m e\<close> is the number \<open>m * 2 ^ e\<close>, with \<open>\<bar>m\<bar> < 2 ^ 53\<close> and
  \<open>- 1074 \<le> e \<le> 971\<close>. A Python number is an unbounded \<open>int\<close> (a \<open>bool\<close> is the
  \<open>int\<close> 0 or 1) or a \<open>float\<close>.
\<close>

datatype pyfloat = Finite int int | PosInf | NegInf | NaN

datatype pynum = PInt int | PFloat pyfloat

text \<open>
  The values \<open>json.load\<close> returns. A dict is an association list in insertion order;
  \<open>d.get(k)\<close> is \<open>map_of d k\<close>, \<open>d[k] = v\<close> is \<open>AList.update k v d\<close>.
\<close>

datatype jval =
    JNull
  | JBool bool
  | JInt int
  | JFloat pyfloat
  | JStr string
  | JArr "jval list"
  | JObj "(string \<times> jval) list"

type_synonym jdict = "(string \<times> jval) list"

text \<open>
  Comparison of Python numbers is exact, also between an \<open>int\<close> and a \<open>float\<close>;
  every comparison with \<open>NaN\<close> is false.
\<close>

fun as_float :: "pynum \<Rightarrow> pyfloat" where
  "as_float (PInt i) = Finite i 0"
| "as_float (PFloat x) = x"

definition fin_less :: "int \<Rightarrow> int \<Rightarrow> int \<Rightarrow> int \<Rightarrow> bool" where
  "fin_less m e m' e' =
     (let k = min e e' in m * 2 ^ nat (e - k) < m' * 2 ^ nat (e' - k))"

definition fin_eq :: "int \<Rightarrow> int \<Rightarrow> int \<Rightarrow> int \<Rightarrow> bool" where
  "fin_eq m e m' e' =
     (let k = min e e' in m * 2 ^ nat (e - k) = m' * 2 ^ nat (e' - k))"

fun float_gt :: "pyfloat \<Rightarrow> pyfloat \<Rightarrow> bool" where
  "float_gt NaN _ = False"
| "float_gt _ NaN = False"
| "float_gt NegInf _ = False"
| "float_gt _ PosInf = False"
| "float_gt PosInf _ = True"
| "float_gt _ NegInf = True"
| "float_gt (Finite m e) (Finite m' e') = fin_less m' e' m e"

fun float_eq :: "pyfloat \<Rightarrow> pyfloat \<Rightarrow> bool" where
  "float_eq PosInf PosInf = True"
| "float_eq NegInf NegInf = True"
| "float_eq (Finite m e) (Finite m' e') = fin_eq m e m' e'"
| "float_eq _ _ = False"

definition py_gt :: "pynum \<Rightarrow> pynum \<Rightarrow> bool" where
  "py_gt a b = float_gt (as_float a) (as_float b)"

definition py_eq :: "pynum \<Rightarrow> pynum \<Rightarrow> bool" where
  "py_eq a b = float_eq (as_float a) (as_float b)"

text \<open>
  \<open>x + 1\<close>: exact on an \<open>int\<close>; on a finite double the exact sum \<open>n * 2 ^ k\<close> is
  rounded to 53 significant bits, ties to even. The sum of a double and 1 never
  exceeds the largest double.
\<close>

function bit_length :: "int \<Rightarrow> nat" where
  "bit_length n = (if n \<le> 0 then 0 else Suc (bit_length (n div 2)))"
  by pat_completeness auto
termination
  by (relation "measure nat") auto

definition round_double :: "int \<Rightarrow> int \<Rightarrow> pyfloat" where
  "round_double n k =
     (let a = \<bar>n\<bar>; len = bit_length a
      in if len \<le> 53 then Finite n k
         else (let sh = len - 53;
                   q = a div 2 ^ sh;
                   r = a mod 2 ^ sh;
                   half = 2 ^ (sh - 1);
                   q' = (if half < r \<or> (r = half \<and> odd q) then q + 1 else q)
               in Finite (sgn n * q') (k + int sh)))"

fun float_add1 :: "pyfloat \<Rightarrow> pyfloat" where
  "float_add1 (Finite m e) =
     (let k = min e 0 in round_double (m * 2 ^ nat (e - k) + 2 ^ nat (- k)) k)"
| "float_add1 x = x"

fun py_add1 :: "pynum \<Rightarrow> pynum" where
  "py_add1 (PInt i) = PInt (i + 1)"
| "py_add1 (PFloat x) = PFloat (float_add1 x)"

fun py_num :: "jval \<Rightarrow> pynum option" where
  "py_num (JInt n) = Some (PInt n)"
| "py_num (JBool b) = Some (PInt (if b then 1 else 0))"
| "py_num (JFloat x) = Some (PFloat x)"
| "py_num _ = None"

fun jnum :: "pynum \<Rightarrow> jval" where
  "jnum (PInt i) = JInt i"
| "jnum (PFloat x) = JFloat x"

text \<open>
  Python's \<open>==\<close> between the result of \<open>.get\<close> and a number: a missing key gives
  \<open>None\<close>, and \<open>None\<close>, strings, lists and dicts equal no number.
\<close>

definition py_eq_num :: "jval option \<Rightarrow> pynum \<Rightarrow> bool" where
  "py_eq_num v n =
     (case v of
        None \<Rightarrow> False
      | Some x \<Rightarrow> (case py_num x of None \<Rightarrow> False | Some y \<Rightarrow> py_eq y n))"

definition py_eq_int :: "jval option \<Rightarrow> int \<Rightarrow> bool" where
  "py_eq_int v i = py_eq_num v (PInt i)"


definition jstr_opt :: "string option \<Rightarrow> jval" where
  "jstr_opt s = (case s of None \<Rightarrow> JNull | Some x \<Rightarrow> JStr x)"


definition jnum_opt :: "pynum option \<Rightarrow> jval" where
  "jnum_opt i = (case i of None \<Rightarrow> JNull | Some x \<Rightarrow> jnum x)"

text \<open>
  The pydantic models \<open>TodoItem\<close> and \<open>TodoUpdate\<close>, the same in both variants. The
  \<open>id\<close> of a request is an \<open>int\<close> or \<open>None\<close>; \<open>create_todo\<close> assigns to it what
  \<open>get_next_id\<close> returns, without validation.
\<close>

record todo_item =
  item_id :: "pynum option"
  item_title :: string
  item_description :: "string option"
  item_completed :: bool
  item_created_at :: "string option"
  item_updated_at :: "string option"

definition model_dump :: "todo_item \<Rightarrow> jdict" where
  "model_dump todo =
     [(''id'', jnum_opt (item_id todo)),
      (''title'', JStr (item_title todo)),
      (''description'', jstr_opt (item_description todo)),
      (''completed'', JBool (item_completed todo)),
      (''created_at'', jstr_opt (item_created_at todo)),
      (''updated_at'', jstr_opt (item_updated_at todo))]"




definition not_found :: py_exc where
  "not_found = HTTPException 404 ''Todo not found''"


section \<open>The JSON-file variant (\<open>main_json.py\<close>)\<close>

text \<open>
  The file \<open>todos.json\<close> is missing; or holds text that \<open>json.load\<close> rejects with
  \<open>JSONDecodeError\<close>; or holds bytes that are not UTF-8, so that reading it raises
  \<open>UnicodeDecodeError\<close>; or holds JSON nested so deeply that parsing it raises
  \<open>RecursionError\<close>; or cannot be opened; or holds a list of dicts.
  \<^verbatim>\<open>
  def read_todos() -> list[dict]:
      if not os.path.exists(JSON_FILE):
          return []
      try:
          with open(JSON_FILE, 'r') as f:
              return json.load(f)
      except (json.JSONDecodeError, FileNotFoundError):
          return []
  \<close>
\<close>

datatype json_file =
    Missing
  | Malformed
  | NotUtf8
  | TooDeep
  | Unreadable
  | Stored "jdict list"

definition os_path_exists :: "json_file \<Rightarrow> bool" where
  "os_path_exists f = (f \<noteq> Missing)"

definition json_load :: "json_file \<Rightarrow> py_exc + jdict list" where
  "json_load f =
     (case f of
        Missing \<Rightarrow> Inl FileNotFoundError
      | Malformed \<Rightarrow> Inl JSONDecodeError
      | NotUtf8 \<Rightarrow> Inl UnicodeDecodeError
      | TooDeep \<Rightarrow> Inl RecursionError
      | Unreadable \<Rightarrow> Inl (OtherException ''PermissionError'')
      | Stored todos \<Rightarrow> Inr todos)"

definition read_todos :: "json_file \<Rightarrow> py_exc + jdict list" where
  "read_todos f =
     (if \<not> os_path_exists f then Inr []
      else (case json_load f of
              Inl JSONDecodeError \<Rightarrow> Inr []
            | Inl FileNotFoundError \<Rightarrow> Inr []
            | Inl err \<Rightarrow> Inl err
            | Inr todos \<Rightarrow> Inr todos))"

definition write_todos :: "jdict list \<Rightarrow> json_file" where
  "write_todos todos = Stored todos"

text \<open>
  \<^verbatim>\<open>
  def get_next_id(todos: list[dict]) -> int:
      if not todos:
          return 1
      return max(todo.get('id', 0) for todo in todos) + 1
  \<close>
  \<open>max\<close> keeps the first item and replaces it by each later item that is greater.
  An id that is not a number makes the comparison inside \<open>max\<close> or the addition
  raise \<open>TypeError\<close>.
\<close>

definition id_or_0 :: "jdict \<Rightarrow> jval" where
  "id_or_0 todo = (case map_of todo ''id'' of None \<Rightarrow> JInt 0 | Some v \<Rightarrow> v)"

fun max_from :: "pynum \<Rightarrow> jdict list \<Rightarrow> py_exc + pynum" where
  "max_from m [] = Inr m"
| "max_from m (t # ts) =
     (case py_num (id_or_0 t) of
        None \<Rightarrow> Inl TypeError
      | Some x \<Rightarrow> max_from (if py_gt x m then x else m) ts)"

definition max_ids :: "jdict list \<Rightarrow> py_exc + pynum" where
  "max_ids todos =
     (case todos of
        [] \<Rightarrow> Inl (OtherException ''ValueError'')
      | t # ts \<Rightarrow>
          (case py_num (id_or_0 t) of None \<Rightarrow> Inl TypeError | Some x \<Rightarrow> max_from x ts))"

definition get_next_id :: "jdict list \<Rightarrow> py_exc + pynum" where
  "get_next_id todos =
     (if todos = [] then Inr (PInt 1)
      else (case max_ids todos of Inl err \<Rightarrow> Inl err | Inr m \<Rightarrow> Inr (py_add1 m)))"



definition create_todo :: "string \<Rightarrow> todo_item \<Rightarrow> json_file \<Rightarrow> (py_exc + jdict) \<times> json_file" where
  "create_todo now todo f =
     (case read_todos f of
        Inl err \<Rightarrow> (Inl err, f)
      | Inr todos \<Rightarrow>
          (case (case item_id todo of None \<Rightarrow> get_next_id todos | Some i \<Rightarrow> Inr i) of
             Inl err \<Rightarrow> (Inl err, f)
           | Inr new_id \<Rightarrow>
               if \<exists>t \<in> set todos. py_eq_num (map_of t ''id'') new_id
               then (Inl (HTTPException 400 ''Todo with this ID already exists''), f)
               else (let todo_dict =
                           AList.update ''updated_at'' (JStr now)
                             (AList.update ''created_at'' (JStr now)
                                (model_dump (todo\<lparr>item_id := Some new_id\<rparr>)))
                     in (Inr todo_dict, write_todos (todos @ [todo_dict])))))"



text \<open>Stored todos none of whose ids is a float.\<close>

fun is_float :: "jval \<Rightarrow> bool" where
  "is_float (JFloat _) = True"
| "is_float _ = False"

definition no_float_ids :: "jdict list \<Rightarrow> bool" where
  "no_float_ids todos = list_all (\<lambda>t. \<not> is_float (id_or_0 t)) todos"

definition file_no_float_ids :: "json_file \<Rightarrow> bool" where
  "file_no_float_ids f = (case f of Stored todos \<Rightarrow> no_float_ids todos | _ \<Rightarrow> True)"

section \<open>The SQLite variant (\<open>main_sqlite.py\<close>)\<close>

text \<open>
  The table \<open>todos\<close>: \<open>id\<close> is the primary key, \<open>title\<close> and \<open>completed\<close> are
  \<open>NOT NULL\<close>, \<open>completed\<close> is an integer. The functions of this variant open, commit
  and close their own connection; they are modelled on the committed rows. Every
  one of them first executes a \<open>SELECT ... WHERE id = ?\<close>, which raises
  \<open>OverflowError\<close> for an identifier that is not a 64-bit integer.
\<close>

record todo_row =
  row_id :: int
  row_title :: string
  row_description :: "string option"
  row_completed :: int
  row_created_at :: "string option"
  row_updated_at :: "string option"

definition row_to_dict :: "todo_row \<Rightarrow> jdict" where
  "row_to_dict row =
     [(''id'', JInt (row_id row)),
      (''title'', JStr (row_title row)),
      (''description'', jstr_opt (row_description row)),
      (''completed'', JBool (row_completed row \<noteq> 0)),
      (''created_at'', jstr_opt (row_created_at row)),
      (''updated_at'', jstr_opt (row_updated_at row))]"


text \<open>
  The \<open>SET\<close> clauses of \<open>update_todo_in_db\<close> and its \<open>UPDATE todos SET ... WHERE id = ?\<close>.
  Setting \<open>title\<close> to \<open>NULL\<close> in a row violates \<open>NOT NULL\<close>; the exception leaves the
  function before its commit.
\<close>

datatype todo_clause =
    SetTitle "string option"
  | SetDescription "string option"
  | SetCompleted int
  | SetUpdatedAt string

fun apply_todo_clause :: "todo_clause \<Rightarrow> todo_row \<Rightarrow> todo_row" where
  "apply_todo_clause (SetTitle (Some t)) r = r\<lparr>row_title := t\<rparr>"
| "apply_todo_clause (SetTitle None) r = r"
| "apply_todo_clause (SetDescription d) r = r\<lparr>row_description := d\<rparr>"
| "apply_todo_clause (SetCompleted c) r = r\<lparr>row_completed := c\<rparr>"
| "apply_todo_clause (SetUpdatedAt t) r = r\<lparr>row_updated_at := Some t\<rparr>"



text \<open>
  \<^verbatim>\<open>
  def delete_todo_from_db(todo_id: int) -> bool:
      cursor.execute("SELECT id FROM todos WHERE id = ?", (todo_id,))
      if not cursor.fetchone():
          conn.close()
          return None
      cursor.execute("DELETE FROM todos WHERE id = ?", (todo_id,))
      conn.commit()
      conn.close()
      return True
  \<close>
\<close>

definition delete_todo_from_db ::
  "int \<Rightarrow> todo_row list \<Rightarrow> (py_exc + bool option) \<times> todo_row list" where
  "delete_todo_from_db todo_id rows =
     (if \<not> fits_int64 todo_id then (Inl OverflowError, rows)
      else case find (\<lambda>r. row_id r = todo_id) rows of
        None \<Rightarrow> (Inr None, rows)
      | Some _ \<Rightarrow> (Inr (Some True), filter (\<lambda>r. row_id r \<noteq> todo_id) rows))"


definition delete_todo_sqlite :: "int \<Rightarrow> todo_row list \<Rightarrow> (py_exc + unit) \<times> todo_row list" where
  "delete_todo_sqlite todo_id rows =
     (case delete_todo_from_db todo_id rows of
        (Inl err, rows') \<Rightarrow> (Inl err, rows')
      | (Inr None, rows') \<Rightarrow> (Inl not_found, rows')
      | (Inr (Some _), rows') \<Rightarrow> (Inr (), rows'))"

text \<open>Sample data.\<close>

definition todo1 :: todo_row where
  "todo1 = \<lparr>row_id = 1, row_title = ''buy milk'', row_description = None, row_completed = 0,
            row_created_at = Some ''2024-01-01T10:00:00'',
            row_updated_at = Some ''2024-01-01T10:00:00''\<rparr>"

definition todo2 :: todo_row where
  "todo2 = \<lparr>row_id = 2, row_title = ''write report'', row_description = Some ''draft'',
            row_completed = 1,
            row_created_at = Some ''2024-01-02T09:00:00'',
            row_updated_at = Some ''2024-01-02T09:00:00''\<rparr>"



definition new_item :: todo_item where
  "new_item = \<lparr>item_id = None, item_title = ''call home'', item_description = None,
               item_completed = False, item_created_at = None, item_updated_at = None\<rparr>"

definition inf_todo :: jdict where
  "inf_todo = [(''id'', JFloat PosInf), (''title'', JStr ''stars'')]"

definition big_todo :: jdict where
  "big_todo = [(''id'', JFloat (Finite 152587890625 16)), (''title'', JStr ''sand'')]"


section \<open>Properties of the session wrapper\<close>

lemma acquire_eq:
  "acquire u w =
     (\<lparr>cnx_id = opened w, cnx_url = u, pending = None\<rparr>,
      w\<lparr>opened := Suc (opened w),
        log := log w @ [Connect u (opened w), CursorOpened (opened w)]\<rparr>)"
  by (simp add: acquire_def connect_def cursor_def)

lemma session_returns:
  assumes "func (fst (acquire u w)) (snd (acquire u w)) = (Returns r, p, w2)"
  shows "session func u w =
           (Returns r,
            w2\<lparr>store := (case p of None \<Rightarrow> store w2 | Some d \<Rightarrow> (store w2)(u := d)),
               closed := Suc (closed w2),
               log := log w2 @ (if p = None then [] else [Commit (opened w)])
                        @ [CursorClosed (opened w), Closed (opened w)]\<rparr>)"
  using assms
  by (cases p)
     (simp_all add: session_def acquire_eq in_transaction_def commit_def
        finally_close_def cursor_close_def cnx_close_def)

lemma session_raises:
  assumes "func (fst (acquire u w)) (snd (acquire u w)) = (Raises e, p, w2)"
  shows "session func u w =
           (Raises e,
            w2\<lparr>closed := Suc (closed w2),
               log := log w2 @ (if is_Exception e then [Rollback (opened w), Printed e] else [])
                        @ [CursorClosed (opened w), Closed (opened w)]\<rparr>)"
  using assms
  by (simp add: session_def acquire_eq rollback_def print_err_def
        finally_close_def cursor_close_def cnx_close_def)

lemma on_cursor_acquire:
  "on_cursor body (fst (acquire u w)) (snd (acquire u w)) =
     (fst (body (store w u)), snd (body (store w u)), snd (acquire u w))"
  by (cases "body (store w u)")
     (simp add: on_cursor_def acquire_eq cursor_view_def split: option.splits)


lemma session_on_cursor:
  assumes "body (store w u) = (out, p)"
  shows "session (on_cursor body) u w =
           (out,
            w\<lparr>store := (case out of
                          Returns _ \<Rightarrow> (case p of None \<Rightarrow> store w | Some d \<Rightarrow> (store w)(u := d))
                        | Raises _ \<Rightarrow> store w),
              opened := Suc (opened w),
              closed := Suc (closed w),
              log := log w @ [Connect u (opened w), CursorOpened (opened w)]
                       @ (case out of
                            Returns _ \<Rightarrow> (if p = None then [] else [Commit (opened w)])
                          | Raises e \<Rightarrow>
                              (if is_Exception e then [Rollback (opened w), Printed e] else []))
                       @ [CursorClosed (opened w), Closed (opened w)]\<rparr>)"
proof (cases out)
  case (Returns r)
  have "on_cursor body (fst (acquire u w)) (snd (acquire u w))
          = (Returns r, p, snd (acquire u w))"
    using assms Returns by (simp add: on_cursor_acquire)
  then have "session (on_cursor body) u w =
      (Returns r,
       (snd (acquire u w))\<lparr>store := (case p of None \<Rightarrow> store (snd (acquire u w))
                                           | Some d \<Rightarrow> (store (snd (acquire u w)))(u := d)),
          closed := Suc (closed (snd (acquire u w))),
          log := log (snd (acquire u w)) @ (if p = None then [] else [Commit (opened w)])
                   @ [CursorClosed (opened w), Closed (opened w)]\<rparr>)"
    by (rule session_returns)
  then show ?thesis
    using Returns by (cases p) (simp_all add: acquire_eq)
next
  case (Raises e)
  have "on_cursor body (fst (acquire u w)) (snd (acquire u w))
          = (Raises e, p, snd (acquire u w))"
    using assms Raises by (simp add: on_cursor_acquire)
  then have "session (on_cursor body) u w =
      (Raises e,
       (snd (acquire u w))\<lparr>closed := Suc (closed (snd (acquire u w))),
          log := log (snd (acquire u w))
                   @ (if is_Exception e then [Rollback (opened w), Printed e] else [])
                   @ [CursorClosed (opened w), Closed (opened w)]\<rparr>)"
    by (rule session_raises)
  then show ?thesis
    using Raises by (simp add: acquire_eq)
qed


lemma issued_append: "log w' = log w @ evs \<Longrightarrow> issued w w' = evs"
  by (simp add: issued_def)

lemma invoke_n_counts_step:
  "opened (snd (session (on_cursor body) u w)) = Suc (opened w)"
  "closed (snd (session (on_cursor body) u w)) = Suc (closed w)"
  using session_on_cursor [of body w u "fst (body (store w u))" "snd (body (store w u))"]
  by simp_all

lemma fits_int64_small [simp]: "fits_int64 1" "fits_int64 2" "fits_int64 7"
  by (simp_all add: fits_int64_def)


subsection \<open>Commit on normal return\<close>



subsection \<open>Rollback and re-raise on failure\<close>



subsection \<open>One connection per call, closed on every path\<close>

text \<open>
  C3. For a unit of work acting on its cursor, whatever its outcome, a call opens one
  connection and closes one: the trace of the call holds one \<open>Connect\<close> and one
  \<open>Closed\<close>, and ends with the closing of the cursor and then of the connection; after
  \<open>n\<close> calls in a row \<open>n\<close> more connections have been opened and \<open>n\<close> more closed.
\<close>

theorem session_opens_and_closes_once:
  "opened (snd (session (on_cursor body) u w)) = Suc (opened w)
   \<and> closed (snd (session (on_cursor body) u w)) = Suc (closed w)
   \<and> filter is_connect (issued w (snd (session (on_cursor body) u w)))
       = [Connect u (opened w)]
   \<and> filter is_closed (issued w (snd (session (on_cursor body) u w)))
       = [Closed (opened w)]
   \<and> last (issued w (snd (session (on_cursor body) u w))) = Closed (opened w)
   \<and> last (butlast (issued w (snd (session (on_cursor body) u w))))
       = CursorClosed (opened w)
   \<and> opened (invoke_n n (on_cursor body) u w) = opened w + n
   \<and> closed (invoke_n n (on_cursor body) u w) = closed w + n"
proof -
  obtain out p where b: "body (store w u) = (out, p)"
    by (cases "body (store w u)")
  note eq = session_on_cursor [of body w u out p, OF b]
  let ?mid = "case out of
                Returns _ \<Rightarrow> (if p = None then [] else [Commit (opened w)])
              | Raises e \<Rightarrow> (if is_Exception e then [Rollback (opened w), Printed e] else [])"
  have "log (snd (session (on_cursor body) u w))
          = log w @ ([Connect u (opened w), CursorOpened (opened w)] @ ?mid
                     @ [CursorClosed (opened w), Closed (opened w)])"
    by (simp add: eq)
  then have iss: "issued w (snd (session (on_cursor body) u w))
          = [Connect u (opened w), CursorOpened (opened w)] @ ?mid
            @ [CursorClosed (opened w), Closed (opened w)]"
    by (rule issued_append)
  have mid: "filter is_connect ?mid = [] \<and> filter is_closed ?mid = []"
    by (cases out) simp_all
  have one: "opened (snd (session (on_cursor body) u w)) = Suc (opened w)
           \<and> closed (snd (session (on_cursor body) u w)) = Suc (closed w)"
    by (simp add: eq)
  let ?evs = "[Connect u (opened w), CursorOpened (opened w)] @ ?mid
              @ [CursorClosed (opened w), Closed (opened w)]"
  have split: "?evs = (([Connect u (opened w), CursorOpened (opened w)] @ ?mid)
                        @ [CursorClosed (opened w)]) @ [Closed (opened w)]"
    by simp
  have l1: "last ?evs = Closed (opened w)"
    by (simp only: split last_snoc)
  have l2: "last (butlast ?evs) = CursorClosed (opened w)"
    by (simp only: split butlast_snoc last_snoc)
  have many: "opened (invoke_n n (on_cursor body) u w) = opened w + n
            \<and> closed (invoke_n n (on_cursor body) u w) = closed w + n"
    by (induction n arbitrary: w) (simp_all add: invoke_n_counts_step)
  have f1: "filter is_connect ?evs = [Connect u (opened w)]"
    using mid by simp
  have f2: "filter is_closed ?evs = [Closed (opened w)]"
    using mid by simp
  show ?thesis
    unfolding iss using one many f1 f2 l1 l2 by blast
qed

subsection \<open>Commits and rollbacks per call\<close>




subsection \<open>Deleting an absent car owner\<close>




subsection \<open>Nested calls\<close>



section \<open>Existence checks of the delete and update operations\<close>





section \<open>The JSON-file variant\<close>

subsection \<open>A missing or malformed store\<close>



subsection \<open>Generated identifiers\<close>

lemma py_gt_int [simp]: "py_gt (PInt a) (PInt b) = (b < a)"
  by (simp add: py_gt_def fin_less_def)

lemma py_eq_int_int [simp]: "py_eq (PInt a) (PInt b) = (a = b)"
  by (simp add: py_eq_def fin_eq_def)

lemma py_num_no_float:
  "\<not> is_float v \<Longrightarrow> py_num v = Some x \<Longrightarrow> \<exists>i. x = PInt i"
  by (cases v) auto

lemma max_from_ints:
  assumes "list_all (\<lambda>t. \<not> is_float (id_or_0 t)) ts" and "max_from (PInt m) ts = Inr r"
  shows "\<exists>n. r = PInt n \<and> m \<le> n
           \<and> (\<forall>t \<in> set ts. \<forall>i. py_num (id_or_0 t) = Some (PInt i) \<longrightarrow> i \<le> n)
           \<and> (n = m \<or> (\<exists>t \<in> set ts. py_num (id_or_0 t) = Some (PInt n)))"
  using assms
proof (induction ts arbitrary: m)
  case Nil
  then show ?case by auto
next
  case (Cons t ts)
  from Cons.prems(2) obtain x where x: "py_num (id_or_0 t) = Some x"
    by (auto split: option.splits)
  from Cons.prems(1) have nf: "\<not> is_float (id_or_0 t)"
    and rest: "list_all (\<lambda>t. \<not> is_float (id_or_0 t)) ts"
    by simp_all
  from py_num_no_float [OF nf x] obtain i where i: "x = PInt i"
    by blast
  from Cons.prems(2) x i have step: "max_from (PInt (if m < i then i else m)) ts = Inr r"
    by (simp split: if_splits)
  from Cons.IH [OF rest step] obtain n where n: "r = PInt n" "(if m < i then i else m) \<le> n"
    "\<forall>t \<in> set ts. \<forall>j. py_num (id_or_0 t) = Some (PInt j) \<longrightarrow> j \<le> n"
    "n = (if m < i then i else m) \<or> (\<exists>t \<in> set ts. py_num (id_or_0 t) = Some (PInt n))"
    by blast
  have le: "m \<le> n" "i \<le> n"
    using n(2) by (auto split: if_splits)
  have all: "\<forall>t' \<in> set (t # ts). \<forall>j. py_num (id_or_0 t') = Some (PInt j) \<longrightarrow> j \<le> n"
    using n(3) le(2) x i by auto
  have att: "n = m \<or> (\<exists>t' \<in> set (t # ts). py_num (id_or_0 t') = Some (PInt n))"
    using n(4) x i by (auto split: if_splits)
  from n(1) le(1) all att show ?case
    by blast
qed

lemma max_ids_ints:
  assumes "no_float_ids todos" and "max_ids todos = Inr r"
  shows "\<exists>n. r = PInt n
           \<and> (\<forall>t \<in> set todos. \<forall>i. py_num (id_or_0 t) = Some (PInt i) \<longrightarrow> i \<le> n)
           \<and> (\<exists>t \<in> set todos. py_num (id_or_0 t) = Some (PInt n))"
proof (cases todos)
  case Nil
  with assms(2) show ?thesis by (simp add: max_ids_def)
next
  case (Cons t ts)
  from assms(2) Cons obtain x where x: "py_num (id_or_0 t) = Some x"
    and mf: "max_from x ts = Inr r"
    by (auto simp: max_ids_def split: option.splits)
  from assms(1) Cons have nf: "\<not> is_float (id_or_0 t)"
    and rest: "list_all (\<lambda>t. \<not> is_float (id_or_0 t)) ts"
    by (simp_all add: no_float_ids_def)
  from py_num_no_float [OF nf x] obtain m where m: "x = PInt m"
    by blast
  from max_from_ints [OF rest mf [unfolded m]] obtain n where n: "r = PInt n" "m \<le> n"
    "\<forall>t \<in> set ts. \<forall>j. py_num (id_or_0 t) = Some (PInt j) \<longrightarrow> j \<le> n"
    "n = m \<or> (\<exists>t \<in> set ts. py_num (id_or_0 t) = Some (PInt n))"
    by blast
  have all: "\<forall>t' \<in> set todos. \<forall>j. py_num (id_or_0 t') = Some (PInt j) \<longrightarrow> j \<le> n"
    using n(2,3) x m Cons by auto
  have att: "\<exists>t' \<in> set todos. py_num (id_or_0 t') = Some (PInt n)"
    using n(4) x m Cons by auto
  from n(1) all att show ?thesis
    by blast
qed

lemma max_from_error: "max_from m ts = Inl err \<Longrightarrow> err = TypeError"
  by (induction ts arbitrary: m) (auto split: option.splits)

lemma max_ids_error:
  "max_ids todos = Inl err \<Longrightarrow> err = TypeError \<or> err = OtherException ''ValueError''"
  by (cases todos) (auto simp: max_ids_def split: option.splits dest: max_from_error)

lemma py_eq_int_no_float:
  assumes "py_eq_int (map_of t ''id'') i" and "\<not> is_float (id_or_0 t)"
  shows "py_num (id_or_0 t) = Some (PInt i)"
proof -
  from assms(1) obtain v y where v: "map_of t ''id'' = Some v" "py_num v = Some y" "py_eq y (PInt i)"
    by (auto simp: py_eq_int_def py_eq_num_def split: option.splits)
  from v(1) have idv: "id_or_0 t = v"
    by (simp add: id_or_0_def)
  with assms(2) v(2) obtain j where "y = PInt j"
    using py_num_no_float by blast
  with v idv show ?thesis
    by simp
qed

lemma get_next_id_fresh:
  assumes "no_float_ids todos" and "get_next_id todos = Inr r"
  shows "\<exists>n. r = PInt n
           \<and> (\<forall>t \<in> set todos. \<forall>i. py_eq_int (map_of t ''id'') i \<longrightarrow> i < n)
           \<and> (todos \<noteq> [] \<longrightarrow> (\<exists>t \<in> set todos. py_num (id_or_0 t) = Some (PInt (n - 1))))"
proof (cases "todos = []")
  case True
  with assms(2) show ?thesis
    by (auto simp: get_next_id_def)
next
  case False
  with assms(2) obtain m where m: "max_ids todos = Inr m" and r: "r = py_add1 m"
    by (auto simp: get_next_id_def split: sum.splits)
  from max_ids_ints [OF assms(1) m] obtain k where k: "m = PInt k"
    "\<forall>t \<in> set todos. \<forall>i. py_num (id_or_0 t) = Some (PInt i) \<longrightarrow> i \<le> k"
    "\<exists>t \<in> set todos. py_num (id_or_0 t) = Some (PInt k)"
    by blast
  have nf: "\<forall>t \<in> set todos. \<not> is_float (id_or_0 t)"
    using assms(1) by (simp add: no_float_ids_def list_all_iff)
  have fresh: "\<forall>t \<in> set todos. \<forall>i. py_eq_int (map_of t ''id'') i \<longrightarrow> i < k + 1"
  proof (intro ballI allI impI)
    fix t i
    assume t: "t \<in> set todos" and e: "py_eq_int (map_of t ''id'') i"
    from py_eq_int_no_float [OF e] nf t have "py_num (id_or_0 t) = Some (PInt i)"
      by blast
    with k(2) t have "i \<le> k" by blast
    then show "i < k + 1" by simp
  qed
  from r k(1) have "r = PInt (k + 1)"
    by simp
  with fresh k(3) show ?thesis
    by auto
qed

text \<open>
  C10, as stated, fails: when a stored todo has the float \<open>Infinity\<close> as its id, or
  the float \<open>1e16\<close>, the identifier that \<open>get_next_id\<close> returns equals it, and
  \<open>create_todo\<close> with no identifier in the request answers that the identifier
  already exists.
\<close>

theorem generated_id_clashes_with_float:
  "fst (create_todo ''2024-02-01T00:00:00'' new_item (Stored [inf_todo]))
     = Inl (HTTPException 400 ''Todo with this ID already exists'')
   \<and> fst (create_todo ''2024-02-01T00:00:00'' new_item (Stored [big_todo]))
     = Inl (HTTPException 400 ''Todo with this ID already exists'')"
proof -
  have i: "get_next_id [inf_todo] = Inr (PFloat PosInf)"
    by (simp add: get_next_id_def max_ids_def id_or_0_def inf_todo_def)
  have len: "bit_length 10000000000000001 = 54"
    by code_simp
  have "float_add1 (Finite 152587890625 16) = Finite 5000000000000000 1"
    by (simp add: round_double_def len Let_def)
  then have b: "get_next_id [big_todo] = Inr (PFloat (Finite 5000000000000000 1))"
    by (simp add: get_next_id_def max_ids_def id_or_0_def big_todo_def)
  have ei: "py_eq_num (map_of inf_todo ''id'') (PFloat PosInf)"
    by (simp add: py_eq_num_def py_eq_def inf_todo_def)
  have eb: "py_eq_num (map_of big_todo ''id'') (PFloat (Finite 5000000000000000 1))"
    by (simp add: py_eq_num_def py_eq_def fin_eq_def big_todo_def)
  have r: "read_todos (Stored [inf_todo]) = Inr [inf_todo]"
          "read_todos (Stored [big_todo]) = Inr [big_todo]"
    by (simp_all add: read_todos_def os_path_exists_def json_load_def)
  show ?thesis
    by (simp add: create_todo_def new_item_def r i b ei eb)
qed

text \<open>
  C10, amended. For a stored todo list none of whose ids is a float, the identifier
  that \<open>get_next_id\<close> returns is an \<open>int\<close>: 1 for the empty list and otherwise one
  more than an identifier present, and greater than every identifier a stored todo
  compares equal to; so \<open>create_todo\<close> with no identifier in the request never
  answers that the identifier already exists.
\<close>

theorem generated_id_is_fresh:
  "get_next_id [] = Inr (PInt 1)
   \<and> (no_float_ids todos \<and> get_next_id todos = Inr r \<longrightarrow>
        (\<exists>n. r = PInt n
           \<and> (\<forall>t \<in> set todos. \<forall>i. py_eq_int (map_of t ''id'') i \<longrightarrow> i < n)
           \<and> (todos \<noteq> [] \<longrightarrow> (\<exists>t \<in> set todos. py_num (id_or_0 t) = Some (PInt (n - 1))))))
   \<and> (item_id todo = None \<and> file_no_float_ids f \<longrightarrow>
        fst (create_todo now todo f)
          \<noteq> Inl (HTTPException 400 ''Todo with this ID already exists''))"
proof -
  have a: "get_next_id [] = Inr (PInt 1)"
    by (simp add: get_next_id_def)
  have d: "fst (create_todo now todo f)
             \<noteq> Inl (HTTPException 400 ''Todo with this ID already exists'')"
    if none: "item_id todo = None" and nf: "file_no_float_ids f"
  proof (cases "read_todos f")
    case (Inl err)
    then have "err \<noteq> HTTPException 400 ''Todo with this ID already exists''"
      by (cases f) (auto simp: read_todos_def os_path_exists_def json_load_def)
    with Inl show ?thesis
      by (simp add: create_todo_def)
  next
    case (Inr ts)
    have nts: "no_float_ids ts"
      using Inr nf
      by (cases f)
         (auto simp: read_todos_def os_path_exists_def json_load_def file_no_float_ids_def
            no_float_ids_def)
    show ?thesis
    proof (cases "get_next_id ts")
      case (Inl err)
      then have "err = TypeError \<or> err = OtherException ''ValueError''"
        using max_ids_error [of ts err]
        by (auto simp: get_next_id_def split: if_splits sum.splits)
      then show ?thesis
        using \<open>read_todos f = Inr ts\<close> Inl none by (auto simp: create_todo_def)
    next
      case (Inr r')
      from get_next_id_fresh [OF nts Inr] obtain n where n: "r' = PInt n"
        "\<forall>t \<in> set ts. \<forall>i. py_eq_int (map_of t ''id'') i \<longrightarrow> i < n"
        by blast
      have "\<not> (\<exists>t \<in> set ts. py_eq_num (map_of t ''id'') r')"
        using n by (auto simp: py_eq_int_def)
      then show ?thesis
        using \<open>read_todos f = Inr ts\<close> Inr none by (simp add: create_todo_def Let_def)
    qed
  qed
  show ?thesis
    using a get_next_id_fresh [of todos r] d by blast
qed

theorem generated_id_is_fresh_witness:
  "no_float_ids [row_to_dict todo1, row_to_dict todo2]
   \<and> get_next_id [row_to_dict todo1, row_to_dict todo2] = Inr (PInt 3)
   \<and> py_eq_int (map_of (row_to_dict todo2) ''id'') 2
   \<and> item_id new_item = None
   \<and> fst (create_todo ''2024-02-01T00:00:00'' new_item
            (Stored [row_to_dict todo1, row_to_dict todo2]))
       \<noteq> Inl (HTTPException 400 ''Todo with this ID already exists'')"
proof -
  have h0: "no_float_ids [row_to_dict todo1, row_to_dict todo2]"
    by (simp add: no_float_ids_def id_or_0_def row_to_dict_def)
  have h1: "get_next_id [row_to_dict todo1, row_to_dict todo2] = Inr (PInt 3)"
    by (simp add: get_next_id_def max_ids_def id_or_0_def row_to_dict_def todo1_def todo2_def)
  have h2: "py_eq_int (map_of (row_to_dict todo2) ''id'') 2"
    by (simp add: py_eq_int_def py_eq_num_def row_to_dict_def todo2_def)
  have h3: "item_id new_item = None"
    by (simp add: new_item_def)
  have h4: "file_no_float_ids (Stored [row_to_dict todo1, row_to_dict todo2])"
    by (simp add: file_no_float_ids_def h0)
  from generated_id_is_fresh
         [of "[row_to_dict todo1, row_to_dict todo2]" "PInt 3" new_item
             "Stored [row_to_dict todo1, row_to_dict todo2]" "''2024-02-01T00:00:00''"]
       h0 h1 h2 h3 h4
  show ?thesis
    by simp
qed

section \<open>The update operations of the two variants\<close>

lemma py_eq_int_row_to_dict [simp]:
  "py_eq_int (map_of (row_to_dict r) ''id'') tid = (row_id r = tid)"
  by (simp add: py_eq_int_def py_eq_num_def row_to_dict_def)





lemma fold_apply_todo_clause_id [simp]:
  "row_id (fold apply_todo_clause cs r) = row_id r"
proof (induction cs arbitrary: r)
  case Nil
  then show ?case by simp
next
  case (Cons c cs)
  have "row_id (apply_todo_clause c r) = row_id r"
    by (cases "(c, r)" rule: apply_todo_clause.cases) auto
  with Cons show ?case by simp
qed



lemma read_todos_Stored [simp]: "read_todos (Stored todos) = Inr todos"
  by (simp add: read_todos_def os_path_exists_def json_load_def)






end
